theory Spec2Isabelle
  imports Main "HOL-Library.Word" "HOL-Library.List_Lexorder"
begin

section \<open>Data model\<close>

text \<open>
  The task manager is a set of Express route handlers over two Mongoose models,
  \<open>User\<close> (src/models/user.js) and \<open>Task\<close> (src/models/task.js). Object ids are
  the strings the routes receive them as; timestamps are natural numbers; a JavaScript
  \<open>Number\<close> that holds an age is an integer here.
\<close>

type_synonym oid = string

text \<open>JSON values: request bodies and the bodies \<open>res.send\<close> serialises.\<close>

datatype json =
    JNull
  | JBool bool
  | JNum int
  | JStr string
  | JArr "json list"
  | JObj "(string \<times> json) list"

text \<open>A plain JavaScript object is its list of own enumerable properties.\<close>

type_synonym jsobject = "(string \<times> json) list"

text \<open>\<open>userSchema\<close>, with the \<open>_id\<close> and the two timestamps Mongoose adds.\<close>

record user =
  u_id :: oid
  name :: string
  email :: string
  password :: string
  age :: int
  tokens :: "string list"
  avatar :: "8 word list option"
  u_createdAt :: nat
  u_updatedAt :: nat

text \<open>\<open>taskSchema\<close>.\<close>

record task =
  t_id :: oid
  description :: string
  completed :: bool
  owner :: oid
  t_createdAt :: nat
  t_updatedAt :: nat

text \<open>The two collections, in natural (insertion) order.\<close>

record db =
  users :: "user list"
  tasks :: "task list"

section \<open>Serialisation\<close>

text \<open>\<open>delete obj.key\<close> on a plain object.\<close>

definition delete_prop :: "string \<Rightarrow> jsobject \<Rightarrow> jsobject" where
  "delete_prop k obj = filter (\<lambda>p. fst p \<noteq> k) obj"

definition buffer_json :: "8 word list \<Rightarrow> json" where
  "buffer_json bs = JObj [(''type'', JStr ''Buffer''), (''data'', JArr (map (\<lambda>b. JNum (uint b)) bs))]"

text \<open>
  \<open>user.toObject()\<close>: a fresh plain object holding the document's paths. A path that
  is undefined (an absent avatar) is not a property of the copy.
\<close>

definition toObject :: "user \<Rightarrow> jsobject" where
  "toObject u =
     [(''_id'', JStr (u_id u)),
      (''name'', JStr (name u)),
      (''email'', JStr (email u)),
      (''password'', JStr (password u)),
      (''age'', JNum (age u)),
      (''tokens'', JArr (map (\<lambda>t. JObj [(''token'', JStr t)]) (tokens u)))]
     @ (case avatar u of None \<Rightarrow> [] | Some bs \<Rightarrow> [(''avatar'', buffer_json bs)])
     @ [(''createdAt'', JNum (int (u_createdAt u))),
        (''updatedAt'', JNum (int (u_updatedAt u)))]"

text \<open>\<open>userSchema.methods.toJSON\<close> (src/models/user.js, lines 104 to 113).\<close>

definition toJSON :: "user \<Rightarrow> jsobject" where
  "toJSON u =
     (let publicUser = toObject u;
          publicUser = delete_prop ''password'' publicUser;
          publicUser = delete_prop ''tokens'' publicUser;
          publicUser = delete_prop ''avatar'' publicUser
      in publicUser)"

text \<open>A task has no \<open>toJSON\<close> of its own: the whole document is serialised.\<close>

definition task_toJSON :: "task \<Rightarrow> jsobject" where
  "task_toJSON t =
     [(''_id'', JStr (t_id t)),
      (''description'', JStr (description t)),
      (''completed'', JBool (completed t)),
      (''owner'', JStr (owner t)),
      (''createdAt'', JNum (int (t_createdAt t))),
      (''updatedAt'', JNum (int (t_updatedAt t)))]"


section \<open>Errors and responses\<close>

text \<open>
  A thrown JavaScript error: its name, its message, and its own enumerable properties.
  \<open>JSON.stringify\<close>, which \<open>res.send\<close> applies to an object, visits the own
  enumerable properties only, and neither \<open>message\<close> nor \<open>stack\<close> of an \<open>Error\<close>
  is enumerable.
\<close>

datatype js_error = JsError (err_name: string) (err_message: string) (err_props: jsobject)

text \<open>\<open>new Error(message)\<close>: no own enumerable property.\<close>

definition new_Error :: "string \<Rightarrow> js_error" where
  "new_Error msg = JsError ''Error'' msg []"

text \<open>
  The errors of the libraries. Mongoose and the MongoDB driver give theirs an
  enumerable \<open>name\<close> and \<open>message\<close>.
\<close>

definition lib_error :: "string \<Rightarrow> string \<Rightarrow> js_error" where
  "lib_error nm msg = JsError nm msg [(''name'', JStr nm), (''message'', JStr msg)]"

definition TypeError :: js_error where
  "TypeError = JsError ''TypeError'' ''Cannot read property of undefined'' []"

definition JsonWebTokenError :: js_error where
  "JsonWebTokenError = lib_error ''JsonWebTokenError'' ''invalid token''"

definition CastError :: js_error where
  "CastError = lib_error ''CastError'' ''Cast to ObjectId failed''"

definition ValidationError :: js_error where
  "ValidationError = lib_error ''ValidationError'' ''Validation failed''"

definition MongoError :: js_error where
  "MongoError = lib_error ''MongoError'' ''store operation failed''"

definition ERR_HTTP_HEADERS_SENT :: js_error where
  "ERR_HTTP_HEADERS_SENT = JsError ''Error'' ''Cannot set headers after they are sent to the client''
     [(''code'', JStr ''ERR_HTTP_HEADERS_SENT'')]"

datatype body = NoBody | TextBody string | JsonBody json

record response =
  status :: nat
  body :: body

text \<open>\<open>res.send(e)\<close> for a caught error \<open>e\<close>: the JSON of an object.\<close>

definition error_body :: "js_error \<Rightarrow> body" where
  "error_body e = JsonBody (JObj (err_props e))"

text \<open>
  \<open>res.status(st).send(b)\<close> on a response object on which \<open>sent\<close> has gone out
  already (\<open>None\<close>: nothing yet). A second send throws and changes nothing.
\<close>

definition send :: "nat \<Rightarrow> body \<Rightarrow> response option \<Rightarrow> js_error + response option" where
  "send st b sent =
     (case sent of
        Some r \<Rightarrow> Inl ERR_HTTP_HEADERS_SENT
      | None \<Rightarrow> Inr (Some \<lparr>status = st, body = b\<rparr>))"

text \<open>
  What a route leaves behind: the response that went out (\<open>None\<close> when the handler
  ended without sending one) and the store.
\<close>

type_synonym result = "response option \<times> db"

section \<open>Libraries and store\<close>

datatype store_op =
    OpUserFindOne
  | OpUserSave
  | OpUserRemove
  | OpTaskFind
  | OpTaskFindOne
  | OpTaskSave
  | OpTaskFindOneAndDelete
  | OpTaskDeleteMany

text \<open>
  The libraries the handlers call, as parameters: \<open>jsonwebtoken\<close> (\<open>jwt_verify\<close> gives
  the \<open>_id\<close> of the decoded payload, \<open>None\<close> when \<open>jwt.verify\<close> throws),
  \<open>bcryptjs\<close>, \<open>validator\<close>, Mongoose's casts (\<open>None\<close>: the value cannot be
  cast), and the store's own faults: \<open>store_fails op\<close> says that this operation
  is rejected by the store, whatever its arguments.
\<close>

record lib =
  jwt_verify :: "string \<Rightarrow> oid option"
  jwt_sign :: "oid \<Rightarrow> string"
  bcrypt_compare :: "string \<Rightarrow> string \<Rightarrow> bool"
  bcrypt_hash :: "string \<Rightarrow> string"
  isEmail :: "string \<Rightarrow> bool"
  isObjectId :: "string \<Rightarrow> bool"
  castString :: "json \<Rightarrow> string option"
  castNumber :: "json \<Rightarrow> int option"
  castBoolean :: "json \<Rightarrow> bool option"
  store_fails :: "store_op \<Rightarrow> bool"

text \<open>
  \<open>User.findOne({ _id: id, 'tokens.token': token })\<close>: the first user with this id
  that holds this token. An id that is no ObjectId makes the query throw.
\<close>

definition User_findOne_id_token :: "lib \<Rightarrow> db \<Rightarrow> oid \<Rightarrow> string \<Rightarrow> js_error + user option" where
  "User_findOne_id_token lib d i token =
     (if store_fails lib OpUserFindOne then Inl MongoError
      else if \<not> isObjectId lib i then Inl CastError
      else Inr (find (\<lambda>u. u_id u = i \<and> token \<in> set (tokens u)) (users d)))"

section \<open>Auth middleware\<close>

text \<open>A request: the parts of \<open>req\<close> the handlers read.\<close>

record request =
  authorization :: "string option"
  params_id :: string
  query_completed :: "string option"
  query_sortBy :: "string option"
  query_limit :: "string option"
  query_skip :: "string option"
  req_body :: jsobject

text \<open>\<open>s.replace(pat, rep)\<close> with a string pattern: the first occurrence only.\<close>

fun replace_first :: "string \<Rightarrow> string \<Rightarrow> string \<Rightarrow> string" where
  "replace_first pat rep [] = (if pat = [] then rep else [])"
| "replace_first pat rep (c # cs) =
     (if take (length pat) (c # cs) = pat then rep @ drop (length pat) (c # cs)
      else c # replace_first pat rep cs)"

text \<open>The body of the \<open>try\<close> block of \<open>auth\<close> (src/middleware/auth.js, lines 13 to 25).\<close>

definition auth_try :: "lib \<Rightarrow> db \<Rightarrow> request \<Rightarrow> js_error + (user \<times> string)" where
  "auth_try lib d req =
     (case authorization req of
        None \<Rightarrow> Inl TypeError
      | Some h \<Rightarrow>
          (let token = replace_first ''Bearer '' [] h in
           case jwt_verify lib token of
             None \<Rightarrow> Inl JsonWebTokenError
           | Some decoded_id \<Rightarrow>
               (case User_findOne_id_token lib d decoded_id token of
                  Inl e \<Rightarrow> Inl e
                | Inr None \<Rightarrow> Inl (new_Error [])
                | Inr (Some user) \<Rightarrow> Inr (user, token))))"

definition auth_failed :: response where
  "auth_failed = \<lparr>status = 401, body = JsonBody (JObj [(''error'', JStr ''Authentication failed'')])\<rparr>"

text \<open>
  \<open>auth\<close>: the \<open>catch\<close> answers every error alike; otherwise the user and the
  token go to the handler (\<open>next()\<close>).
\<close>

definition auth :: "lib \<Rightarrow> db \<Rightarrow> request \<Rightarrow> response + (user \<times> string)" where
  "auth lib d req =
     (case auth_try lib d req of
        Inl e \<Rightarrow> Inl auth_failed
      | Inr ctx \<Rightarrow> Inr ctx)"

text \<open>A route registered as \<open>router.METHOD(path, auth, handler)\<close>.\<close>

definition protected :: "lib \<Rightarrow> db \<Rightarrow> request \<Rightarrow> (user \<Rightarrow> string \<Rightarrow> result) \<Rightarrow> result" where
  "protected lib d req handler =
     (case auth lib d req of
        Inl r \<Rightarrow> (Some r, d)
      | Inr (user, token) \<Rightarrow> handler user token)"

section \<open>Strings\<close>

text \<open>
  A JavaScript string is the list of its code units, for the strings whose code units
  are all below 256 (\<open>CHR 0xA0\<close> is U+00A0, the no-break space). The white space
  \<open>trim\<close> and \<open>parseInt\<close> skip is ECMAScript's WhiteSpace and LineTerminator; in
  this range: tab, line feed, vertical tab, form feed, carriage return, space and
  no-break space.
\<close>

definition isWhiteSpace :: "char \<Rightarrow> bool" where
  "isWhiteSpace c =
     (c \<in> set [CHR 0x09, CHR 0x0A, CHR 0x0B, CHR 0x0C, CHR 0x0D, CHR '' '', CHR 0xA0])"

definition trim :: "string \<Rightarrow> string" where
  "trim s = rev (dropWhile isWhiteSpace (rev (dropWhile isWhiteSpace s)))"

text \<open>
  \<open>toLowerCase\<close>: the ASCII capitals by table, and the capitals of the range
  U+00C0 to U+00DE (the multiplication sign U+00D7 is no letter) by their offset.
\<close>

definition toLowerCase :: "string \<Rightarrow> string" where
  "toLowerCase s =
     map (\<lambda>c. case map_of (zip ''ABCDEFGHIJKLMNOPQRSTUVWXYZ'' ''abcdefghijklmnopqrstuvwxyz'') c of
               Some l \<Rightarrow> l
             | None \<Rightarrow>
                 if 192 \<le> (of_char c :: nat) \<and> (of_char c :: nat) \<le> 222
                    \<and> (of_char c :: nat) \<noteq> 215
                 then char_of ((of_char c :: nat) + 32) else c) s"

text \<open>\<open>s.includes(pat)\<close>.\<close>

fun str_includes :: "string \<Rightarrow> string \<Rightarrow> bool" where
  "str_includes [] pat = (pat = [])"
| "str_includes (c # cs) pat = (take (length pat) (c # cs) = pat \<or> str_includes cs pat)"

text \<open>\<open>s.split(sep)\<close> for a separator of one character: never the empty array.\<close>

fun split :: "char \<Rightarrow> string \<Rightarrow> string list" where
  "split sep [] = [[]]"
| "split sep (c # cs) =
     (if c = sep then [] # split sep cs
      else (case split sep cs of
              [] \<Rightarrow> [[c]]
            | p # ps \<Rightarrow> (c # p) # ps))"

subsection \<open>parseInt\<close>

definition digit_value :: "char \<Rightarrow> nat option" where
  "digit_value c =
     (let n = (of_char c :: nat) in
      if 48 \<le> n \<and> n \<le> 57 then Some (n - 48)
      else if 97 \<le> n \<and> n \<le> 122 then Some (n - 87)
      else if 65 \<le> n \<and> n \<le> 90 then Some (n - 55)
      else None)"

definition is_radix_digit :: "nat \<Rightarrow> char \<Rightarrow> bool" where
  "is_radix_digit R c = (case digit_value c of None \<Rightarrow> False | Some v \<Rightarrow> v < R)"

definition digits_value :: "nat \<Rightarrow> string \<Rightarrow> nat" where
  "digits_value R Z = foldl (\<lambda>a c. case digit_value c of None \<Rightarrow> a | Some v \<Rightarrow> a * R + v) 0 Z"

text \<open>
  \<open>parseInt(string)\<close> with no radix, as ECMAScript defines it: leading white space
  is skipped, a sign is read, \<open>0x\<close> selects radix 16, and the longest prefix of digits
  is the value; \<open>NaN\<close> (here \<open>None\<close>) when that prefix is empty. Whatever follows the
  digits is ignored. The value is exact (no rounding to a double).
\<close>

definition parseInt_string :: "string \<Rightarrow> int option" where
  "parseInt_string inputString =
     (let S = dropWhile isWhiteSpace inputString;
          sign = (if take 1 S = ''-'' then - 1 else (1::int));
          S = (if take 1 S = ''-'' \<or> take 1 S = ''+'' then drop 1 S else S);
          R = (if take 2 S = ''0x'' \<or> take 2 S = ''0X'' then 16 else (10::nat));
          S = (if take 2 S = ''0x'' \<or> take 2 S = ''0X'' then drop 2 S else S);
          Z = takeWhile (is_radix_digit R) S
      in if Z = [] then None else Some (sign * int (digits_value R Z)))"

text \<open>
  \<open>parseInt(req.query.x)\<close>: an absent parameter is \<open>undefined\<close>, which \<open>parseInt\<close>
  first turns into the string \<open>undefined\<close>.
\<close>

definition parseInt :: "string option \<Rightarrow> int option" where
  "parseInt v = parseInt_string (case v of None \<Rightarrow> ''undefined'' | Some s \<Rightarrow> s)"

section \<open>Schema validation and save\<close>

text \<open>
  The validators of \<open>userSchema\<close>: \<open>required\<close> (a string that is not empty),
  \<open>validator.isEmail\<close>, \<open>minlength: 7\<close>, the ban on the word password, and the
  sign of the age.
\<close>

definition validateUser :: "lib \<Rightarrow> user \<Rightarrow> bool" where
  "validateUser lib u =
     (name u \<noteq> []
      \<and> email u \<noteq> [] \<and> isEmail lib (email u)
      \<and> password u \<noteq> [] \<and> 7 \<le> length (password u)
      \<and> \<not> str_includes (toLowerCase (password u)) ''password''
      \<and> 0 \<le> age u)"

definition validateTask :: "task \<Rightarrow> bool" where
  "validateTask t = (description t \<noteq> [] \<and> owner t \<noteq> [])"

text \<open>
  \<open>user[key] = value\<close> on a user document: the schema type casts the value and the
  setters (\<open>trim\<close>, \<open>lowercase\<close>) apply. A value that cannot be cast leaves the path
  as it was and marks the document (the flag): validation will reject it.
\<close>

definition user_set :: "lib \<Rightarrow> string \<Rightarrow> json \<Rightarrow> user \<times> bool \<Rightarrow> user \<times> bool" where
  "user_set lib k v doc =
     (let u = fst doc; bad = snd doc in
      if k = ''name'' then
        (case castString lib v of None \<Rightarrow> (u, True) | Some s \<Rightarrow> (u\<lparr>name := trim s\<rparr>, bad))
      else if k = ''email'' then
        (case castString lib v of None \<Rightarrow> (u, True)
         | Some s \<Rightarrow> (u\<lparr>email := toLowerCase (trim s)\<rparr>, bad))
      else if k = ''password'' then
        (case castString lib v of None \<Rightarrow> (u, True) | Some s \<Rightarrow> (u\<lparr>password := trim s\<rparr>, bad))
      else if k = ''age'' then
        (case castNumber lib v of None \<Rightarrow> (u, True) | Some n \<Rightarrow> (u\<lparr>age := n\<rparr>, bad))
      else (u, bad))"

definition task_set :: "lib \<Rightarrow> string \<Rightarrow> json \<Rightarrow> task \<times> bool \<Rightarrow> task \<times> bool" where
  "task_set lib k v doc =
     (let t = fst doc; bad = snd doc in
      if k = ''description'' then
        (case castString lib v of None \<Rightarrow> (t, True)
         | Some s \<Rightarrow> (t\<lparr>description := trim s\<rparr>, bad))
      else if k = ''completed'' then
        (case castBoolean lib v of None \<Rightarrow> (t, True) | Some b \<Rightarrow> (t\<lparr>completed := b\<rparr>, bad))
      else (t, bad))"

text \<open>
  \<open>user.save()\<close> for a document loaded as \<open>orig\<close> and changed to \<open>new\<close>. Mongoose
  validates first, every path of the document and not the modified ones alone, so the
  stored hash goes through the password validators again; then the hooks run: the timestamp hook sets \<open>updatedAt\<close> when a
  path is modified, and the \<open>pre('save')\<close> hook of src/models/user.js (lines 146 to
  155) hashes a modified password; then the modified paths are written, and the unique
  index on the email rejects a duplicate. A document with no modified path is not
  written.
\<close>

definition user_save :: "lib \<Rightarrow> nat \<Rightarrow> db \<Rightarrow> user \<Rightarrow> user \<times> bool \<Rightarrow> js_error + (user \<times> db)" where
  "user_save lib now d orig doc =
     (let new = fst doc; bad = snd doc in
      if bad \<or> \<not> validateUser lib new then Inl ValidationError
      else if store_fails lib OpUserSave then Inl MongoError
      else
        (let user = (if password new \<noteq> password orig
                     then new\<lparr>password := bcrypt_hash lib (password new)\<rparr> else new);
             user = (if new \<noteq> orig then user\<lparr>u_updatedAt := now\<rparr> else user)
         in if email user \<noteq> email orig
               \<and> list_ex (\<lambda>u. u_id u \<noteq> u_id user \<and> email u = email user) (users d)
            then Inl MongoError
            else if new = orig then Inr (user, d)
            else Inr (user, d\<lparr>users := map (\<lambda>u. if u_id u = u_id user then user else u) (users d)\<rparr>)))"

definition task_save :: "lib \<Rightarrow> nat \<Rightarrow> db \<Rightarrow> task \<Rightarrow> task \<times> bool \<Rightarrow> js_error + (task \<times> db)" where
  "task_save lib now d orig doc =
     (let new = fst doc; bad = snd doc in
      if bad \<or> \<not> validateTask new then Inl ValidationError
      else if store_fails lib OpTaskSave then Inl MongoError
      else if new = orig then Inr (new, d)
      else
        (let task = new\<lparr>t_updatedAt := now\<rparr>
         in Inr (task, d\<lparr>tasks := map (\<lambda>t. if t_id t = t_id task then task else t) (tasks d)\<rparr>)))"

section \<open>User model and routes\<close>

text \<open>
  \<open>User.findOne({ email: email })\<close>. The query value goes through the setters of
  the \<open>email\<close> path, as a stored value does.
\<close>

definition User_findOne_email :: "lib \<Rightarrow> db \<Rightarrow> string \<Rightarrow> js_error + user option" where
  "User_findOne_email lib d e =
     (if store_fails lib OpUserFindOne then Inl MongoError
      else Inr (find (\<lambda>u. email u = toLowerCase (trim e)) (users d)))"

text \<open>\<open>userSchema.statics.findByCredentials\<close> (src/models/user.js, lines 129 to 143).\<close>

definition findByCredentials :: "lib \<Rightarrow> db \<Rightarrow> string \<Rightarrow> string \<Rightarrow> js_error + user" where
  "findByCredentials lib d e pass =
     (case User_findOne_email lib d e of
        Inl err \<Rightarrow> Inl err
      | Inr None \<Rightarrow> Inl (new_Error ''Unable to login (email not found)'')
      | Inr (Some user) \<Rightarrow>
          (let isMatch = bcrypt_compare lib pass (password user) in
           if \<not> isMatch then Inl (new_Error ''Unable to login (password is incorrect)'')
           else Inr user))"

text \<open>\<open>userSchema.methods.generateAuthToken\<close> (src/models/user.js, lines 85 to 93).\<close>

definition generateAuthToken :: "lib \<Rightarrow> nat \<Rightarrow> db \<Rightarrow> user \<Rightarrow> js_error + (string \<times> user \<times> db)" where
  "generateAuthToken lib now d user =
     (let token = jwt_sign lib (u_id user) in
      case user_save lib now d user (user\<lparr>tokens := tokens user @ [token]\<rparr>, False) of
        Inl err \<Rightarrow> Inl err
      | Inr (user', d') \<Rightarrow> Inr (token, user', d'))"

text \<open>
  \<open>router.post('/users/login')\<close> (src/routers/userRouter.js, lines 123 to 133), for a
  body whose \<open>email\<close> and \<open>password\<close> are strings.
\<close>

definition post_users_login :: "lib \<Rightarrow> nat \<Rightarrow> db \<Rightarrow> string \<Rightarrow> string \<Rightarrow> result" where
  "post_users_login lib now d e pass =
     (case findByCredentials lib d e pass of
        Inl err \<Rightarrow> (Some \<lparr>status = 400, body = error_body err\<rparr>, d)
      | Inr user \<Rightarrow>
          (case generateAuthToken lib now d user of
             Inl err \<Rightarrow> (Some \<lparr>status = 400, body = error_body err\<rparr>, d)
           | Inr (newToken, user', d') \<Rightarrow>
               (Some \<lparr>status = 200,
                      body = JsonBody (JObj [(''user'', JObj (toJSON user')),
                                             (''newToken'', JStr newToken)])\<rparr>, d')))"

text \<open>\<open>router.get('/users/me')\<close>.\<close>

definition get_users_me :: "db \<Rightarrow> user \<Rightarrow> result" where
  "get_users_me d user = (Some \<lparr>status = 200, body = JsonBody (JObj (toJSON user))\<rparr>, d)"

text \<open>\<open>updates.every((key) => allowedUpdates.includes(key))\<close>.\<close>

definition isValidOperation :: "string list \<Rightarrow> string list \<Rightarrow> bool" where
  "isValidOperation allowedUpdates updates = list_all (\<lambda>key. key \<in> set allowedUpdates) updates"

definition user_allowedUpdates :: "string list" where
  "user_allowedUpdates = [''name'', ''email'', ''password'', ''age'']"

definition user_update_refused :: response where
  "user_update_refused =
     \<lparr>status = 400,
      body = JsonBody (JObj [(''error'',
        JStr ''You are trying to update a User property that is not allowed or doesn't exist'')])\<rparr>"

text \<open>
  \<open>updates.forEach((update) => user[update] = req.body[update])\<close>, on the user and
  on the task. Every key of \<open>updates\<close> is a key of the body.
\<close>

definition user_apply_updates :: "lib \<Rightarrow> jsobject \<Rightarrow> string list \<Rightarrow> user \<Rightarrow> user \<times> bool" where
  "user_apply_updates lib b updates user =
     foldl (\<lambda>doc update. case map_of b update of None \<Rightarrow> doc | Some v \<Rightarrow> user_set lib update v doc)
       (user, False) updates"

definition task_apply_updates :: "lib \<Rightarrow> jsobject \<Rightarrow> string list \<Rightarrow> task \<Rightarrow> task \<times> bool" where
  "task_apply_updates lib b updates task =
     foldl (\<lambda>doc update. case map_of b update of None \<Rightarrow> doc | Some v \<Rightarrow> task_set lib update v doc)
       (task, False) updates"

text \<open>\<open>router.patch('/users/me')\<close> (src/routers/userRouter.js, lines 65 to 91).\<close>

definition patch_users_me :: "lib \<Rightarrow> nat \<Rightarrow> db \<Rightarrow> request \<Rightarrow> user \<Rightarrow> result" where
  "patch_users_me lib now d req user =
     (let updates = map fst (req_body req) in
      if \<not> isValidOperation user_allowedUpdates updates then (Some user_update_refused, d)
      else
        (case user_save lib now d user (user_apply_updates lib (req_body req) updates user) of
           Inl err \<Rightarrow> (Some \<lparr>status = 400, body = error_body err\<rparr>, d)
         | Inr (user', d') \<Rightarrow> (Some \<lparr>status = 200, body = JsonBody (JObj (toJSON user'))\<rparr>, d')))"

definition avatar_deleted :: response where
  "avatar_deleted = \<lparr>status = 200, body = TextBody ''Successfully deleted your avatar''\<rparr>"

text \<open>
  \<open>router.delete('/users/me/avatar')\<close> (src/routers/userRouter.js, lines 223 to 228).
  There is no \<open>try\<close>: when \<open>save\<close> rejects, nothing is sent.
\<close>

definition delete_users_me_avatar :: "lib \<Rightarrow> nat \<Rightarrow> db \<Rightarrow> user \<Rightarrow> result" where
  "delete_users_me_avatar lib now d user =
     (case user_save lib now d user (user\<lparr>avatar := None\<rparr>, False) of
        Inl err \<Rightarrow> (None, d)
      | Inr (user', d') \<Rightarrow> (Some avatar_deleted, d'))"

text \<open>
  \<open>user.remove()\<close>: the \<open>pre('remove')\<close> hook (src/models/user.js, lines 160 to 165)
  runs \<open>Task.deleteMany({ owner: user._id })\<close>, then the user document is deleted.
  The two store operations are separate: an error carries the store as it is by then.
\<close>

definition user_remove :: "lib \<Rightarrow> db \<Rightarrow> user \<Rightarrow> (js_error \<times> db) + db" where
  "user_remove lib d user =
     (if store_fails lib OpTaskDeleteMany then Inl (MongoError, d)
      else
        (let d1 = d\<lparr>tasks := filter (\<lambda>t. owner t \<noteq> u_id user) (tasks d)\<rparr> in
         if store_fails lib OpUserRemove then Inl (MongoError, d1)
         else Inr (d1\<lparr>users := filter (\<lambda>u. u_id u \<noteq> u_id user) (users d1)\<rparr>)))"

text \<open>\<open>router.delete('/users/me')\<close> (src/routers/userRouter.js, lines 234 to 242).\<close>

definition delete_users_me :: "lib \<Rightarrow> db \<Rightarrow> user \<Rightarrow> result" where
  "delete_users_me lib d user =
     (case user_remove lib d user of
        Inl (err, d') \<Rightarrow> (Some \<lparr>status = 500, body = NoBody\<rparr>, d')
      | Inr d' \<Rightarrow> (Some \<lparr>status = 200, body = JsonBody (JObj (toJSON user))\<rparr>, d'))"


section \<open>Task model and routes\<close>

text \<open>
  The key MongoDB sorts tasks by, for a field name: strings by their characters,
  \<open>false\<close> before \<open>true\<close>, timestamps by their value. A field no task has gives
  every task the same key.
\<close>

definition task_sort_key :: "string \<Rightarrow> task \<Rightarrow> nat list" where
  "task_sort_key field t =
     (if field = ''description'' then map of_char (description t)
      else if field = ''completed'' then [if completed t then 1 else 0]
      else if field = ''createdAt'' then [t_createdAt t]
      else if field = ''updatedAt'' then [t_updatedAt t]
      else if field = ''_id'' then map of_char (t_id t)
      else if field = ''owner'' then map of_char (owner t)
      else [])"

text \<open>Sorting by one field, direction \<open>1\<close> or \<open>-1\<close>; ties keep the natural order.\<close>

definition sort_tasks :: "(string \<times> int) option \<Rightarrow> task list \<Rightarrow> task list" where
  "sort_tasks spec ts =
     (case spec of
        None \<Rightarrow> ts
      | Some (field, dir) \<Rightarrow>
          if dir = - 1 then rev (sort_key (task_sort_key field) (rev ts))
          else sort_key (task_sort_key field) ts)"

text \<open>
  The cursor's \<open>limit\<close>: zero is no limit, and for a negative limit the store
  returns up to its absolute value, in one batch.
\<close>

definition cursor_limit :: "int \<Rightarrow> 'a list \<Rightarrow> 'a list" where
  "cursor_limit n xs = (if n = 0 then xs else take (nat \<bar>n\<bar>) xs)"

text \<open>
  Mongoose's populate assigns the documents found to the \<open>tasks\<close> path one by one
  and, when the limit is not zero, stops as soon as their number has reached the limit
  (\<open>ret.length >= originalLimit\<close>): for a negative limit that is after the first
  document.
\<close>

definition populate_limit :: "int \<Rightarrow> 'a list \<Rightarrow> 'a list" where
  "populate_limit n xs = (if n = 0 then xs else if n < 0 then take 1 xs else take (nat n) xs)"

definition apply_limit :: "int \<Rightarrow> 'a list \<Rightarrow> 'a list" where
  "apply_limit n xs = populate_limit n (cursor_limit n xs)"

text \<open>
  \<open>user.populate({ path: 'tasks', match, options: { limit, skip, sort } }).execPopulate()\<close>:
  the virtual \<open>tasks\<close> (src/models/user.js, lines 63 to 67) selects the tasks whose
  \<open>owner\<close> is the user's \<open>_id\<close>; \<open>match\<close> adds its condition. The driver reads a
  \<open>NaN\<close> limit or skip as zero, the store refuses a negative skip, and the limit
  acts in the cursor and again when the documents are assigned.
\<close>

definition populate_tasks ::
  "lib \<Rightarrow> db \<Rightarrow> user \<Rightarrow> bool option \<Rightarrow> int option \<Rightarrow> int option \<Rightarrow> (string \<times> int) option
     \<Rightarrow> js_error + task list" where
  "populate_tasks lib d user match limit skip sortSpec =
     (let lim = (case limit of None \<Rightarrow> 0 | Some n \<Rightarrow> n);
          skp = (case skip of None \<Rightarrow> 0 | Some n \<Rightarrow> n);
          found = filter (\<lambda>t. owner t = u_id user
                              \<and> (case match of None \<Rightarrow> True | Some c \<Rightarrow> completed t = c))
                    (tasks d)
      in if store_fails lib OpTaskFind then Inl MongoError
         else if skp < 0 then Inl MongoError
         else Inr (apply_limit lim (drop (nat skp) (sort_tasks sortSpec found))))"

text \<open>The \<open>match\<close> object of \<open>router.get('/tasks')\<close>: an empty string is falsy.\<close>

definition tasks_match :: "request \<Rightarrow> bool option" where
  "tasks_match req =
     (case query_completed req of
        None \<Rightarrow> None
      | Some c \<Rightarrow> if c = [] then None else Some (c = ''true''))"

text \<open>The \<open>sort\<close> object: \<open>parts[1]\<close> is undefined when there is no underscore.\<close>

definition tasks_sort :: "request \<Rightarrow> (string \<times> int) option" where
  "tasks_sort req =
     (case query_sortBy req of
        None \<Rightarrow> None
      | Some s \<Rightarrow>
          if s = [] then None
          else (case split CHR ''_'' s of
                  [] \<Rightarrow> None
                | p0 # ps \<Rightarrow>
                    Some (p0, case ps of [] \<Rightarrow> 1 | p1 # _ \<Rightarrow> if p1 = ''desc'' then - 1 else 1)))"

text \<open>\<open>router.get('/tasks')\<close> (src/middleware/auth.js, lines 96 to 126).\<close>

definition get_tasks :: "lib \<Rightarrow> db \<Rightarrow> request \<Rightarrow> user \<Rightarrow> result" where
  "get_tasks lib d req user =
     (let match = tasks_match req;
          sortSpec = tasks_sort req
      in case populate_tasks lib d user match
                (parseInt (query_limit req)) (parseInt (query_skip req)) sortSpec of
           Inl e \<Rightarrow> (Some \<lparr>status = 500, body = NoBody\<rparr>, d)
         | Inr user_tasks \<Rightarrow>
             (Some \<lparr>status = 200,
                    body = JsonBody (JArr (map (\<lambda>t. JObj (task_toJSON t)) user_tasks))\<rparr>, d))"

text \<open>
  \<open>Task.findOne({ _id: id, owner: owner })\<close>: the first task with this id and this
  owner. An id that is no ObjectId makes the query throw.
\<close>

definition Task_findOne :: "lib \<Rightarrow> db \<Rightarrow> string \<Rightarrow> oid \<Rightarrow> js_error + task option" where
  "Task_findOne lib d i ownr =
     (if store_fails lib OpTaskFindOne then Inl MongoError
      else if \<not> isObjectId lib i then Inl CastError
      else Inr (find (\<lambda>t. t_id t = i \<and> owner t = ownr) (tasks d)))"

text \<open>\<open>res.send(task)\<close>: \<open>null\<close> is sent as an empty body.\<close>

definition task_body :: "task option \<Rightarrow> body" where
  "task_body task = (case task of None \<Rightarrow> NoBody | Some t \<Rightarrow> JsonBody (JObj (task_toJSON t)))"

text \<open>
  The \<open>catch\<close> of \<open>router.get('/tasks/:id')\<close>: it sends 404; when a response has
  gone out already, its own send throws and the response that went out stays.
\<close>

definition get_tasks_id_catch :: "db \<Rightarrow> response option \<Rightarrow> result" where
  "get_tasks_id_catch d res =
     (case send 404 NoBody res of
        Inl e \<Rightarrow> (res, d)
      | Inr res' \<Rightarrow> (res', d))"

text \<open>
  \<open>router.get('/tasks/:id')\<close> (src/middleware/auth.js, lines 138 to 152). The branch
  for a missing task sends 404 and does not return: the \<open>res.send(task)\<close> after it
  throws, into the \<open>catch\<close>.
\<close>

definition get_tasks_id :: "lib \<Rightarrow> db \<Rightarrow> request \<Rightarrow> user \<Rightarrow> result" where
  "get_tasks_id lib d req user =
     (let res = None in
      case Task_findOne lib d (params_id req) (u_id user) of
        Inl e \<Rightarrow> get_tasks_id_catch d res
      | Inr task \<Rightarrow>
          (case (if task = None then send 404 NoBody res else Inr res) of
             Inl e \<Rightarrow> get_tasks_id_catch d res
           | Inr res1 \<Rightarrow>
               (case send 200 (task_body task) res1 of
                  Inl e \<Rightarrow> get_tasks_id_catch d res1
                | Inr res2 \<Rightarrow> (res2, d))))"

definition task_allowedUpdates :: "string list" where
  "task_allowedUpdates = [''description'', ''completed'']"

definition task_update_refused :: response where
  "task_update_refused =
     \<lparr>status = 400,
      body = JsonBody (JObj [(''error'',
        JStr ''You are trying to update a Task property that is not allowed or doesn't exist'')])\<rparr>"

definition task_not_found :: response where
  "task_not_found = \<lparr>status = 404, body = JsonBody (JObj [(''error'', JStr ''User not found'')])\<rparr>"

text \<open>\<open>router.patch('/tasks/:id')\<close> (src/middleware/auth.js, lines 170 to 204).\<close>

definition patch_tasks_id :: "lib \<Rightarrow> nat \<Rightarrow> db \<Rightarrow> request \<Rightarrow> user \<Rightarrow> result" where
  "patch_tasks_id lib now d req user =
     (let updates = map fst (req_body req) in
      if \<not> isValidOperation task_allowedUpdates updates then (Some task_update_refused, d)
      else
        (case Task_findOne lib d (params_id req) (u_id user) of
           Inl e \<Rightarrow> (Some \<lparr>status = 400, body = error_body e\<rparr>, d)
         | Inr None \<Rightarrow> (Some task_not_found, d)
         | Inr (Some task) \<Rightarrow>
             (case task_save lib now d task (task_apply_updates lib (req_body req) updates task) of
                Inl e \<Rightarrow> (Some \<lparr>status = 400, body = error_body e\<rparr>, d)
              | Inr (task', d') \<Rightarrow>
                  (Some \<lparr>status = 200, body = JsonBody (JObj (task_toJSON task'))\<rparr>, d'))))"

text \<open>
  \<open>Task.findOneAndDelete({ _id: id, owner: owner })\<close>: the first matching task is
  removed from the collection and returned.
\<close>

definition Task_findOneAndDelete :: "lib \<Rightarrow> db \<Rightarrow> string \<Rightarrow> oid \<Rightarrow> js_error + (task option \<times> db)" where
  "Task_findOneAndDelete lib d i ownr =
     (if store_fails lib OpTaskFindOneAndDelete then Inl MongoError
      else if \<not> isObjectId lib i then Inl CastError
      else (case find (\<lambda>t. t_id t = i \<and> owner t = ownr) (tasks d) of
              None \<Rightarrow> Inr (None, d)
            | Some t \<Rightarrow> Inr (Some t, d\<lparr>tasks := remove1 t (tasks d)\<rparr>)))"

text \<open>\<open>router.delete('/tasks/:id')\<close> (src/middleware/auth.js, lines 235 to 248).\<close>

definition delete_tasks_id :: "lib \<Rightarrow> db \<Rightarrow> request \<Rightarrow> user \<Rightarrow> result" where
  "delete_tasks_id lib d req user =
     (case Task_findOneAndDelete lib d (params_id req) (u_id user) of
        Inl e \<Rightarrow> (Some \<lparr>status = 500, body = NoBody\<rparr>, d)
      | Inr (None, d') \<Rightarrow> (Some \<lparr>status = 404, body = NoBody\<rparr>, d')
      | Inr (Some task, d') \<Rightarrow>
          (Some \<lparr>status = 200, body = JsonBody (JObj (task_toJSON task))\<rparr>, d'))"


section \<open>Protected routes\<close>

definition route_get_users_me :: "lib \<Rightarrow> db \<Rightarrow> request \<Rightarrow> result" where
  "route_get_users_me lib d req = protected lib d req (\<lambda>user token. get_users_me d user)"

definition route_patch_users_me :: "lib \<Rightarrow> nat \<Rightarrow> db \<Rightarrow> request \<Rightarrow> result" where
  "route_patch_users_me lib now d req =
     protected lib d req (\<lambda>user token. patch_users_me lib now d req user)"

definition route_delete_users_me_avatar :: "lib \<Rightarrow> nat \<Rightarrow> db \<Rightarrow> request \<Rightarrow> result" where
  "route_delete_users_me_avatar lib now d req =
     protected lib d req (\<lambda>user token. delete_users_me_avatar lib now d user)"

definition route_delete_users_me :: "lib \<Rightarrow> db \<Rightarrow> request \<Rightarrow> result" where
  "route_delete_users_me lib d req = protected lib d req (\<lambda>user token. delete_users_me lib d user)"

definition route_get_tasks :: "lib \<Rightarrow> db \<Rightarrow> request \<Rightarrow> result" where
  "route_get_tasks lib d req = protected lib d req (\<lambda>user token. get_tasks lib d req user)"

definition route_get_tasks_id :: "lib \<Rightarrow> db \<Rightarrow> request \<Rightarrow> result" where
  "route_get_tasks_id lib d req = protected lib d req (\<lambda>user token. get_tasks_id lib d req user)"

definition route_patch_tasks_id :: "lib \<Rightarrow> nat \<Rightarrow> db \<Rightarrow> request \<Rightarrow> result" where
  "route_patch_tasks_id lib now d req =
     protected lib d req (\<lambda>user token. patch_tasks_id lib now d req user)"

definition route_delete_tasks_id :: "lib \<Rightarrow> db \<Rightarrow> request \<Rightarrow> result" where
  "route_delete_tasks_id lib d req =
     protected lib d req (\<lambda>user token. delete_tasks_id lib d req user)"

section \<open>A small installation\<close>

text \<open>
  Concrete libraries, two users and four tasks, on which the theorems below are run:
  tokens \<open>tokA\<close> and \<open>tokB\<close> verify, a hash is the password behind a \<open>#\<close>, an
  ObjectId is a non-empty string of hexadecimal digits, and the store has no fault.
\<close>

definition lib0 :: lib where
  "lib0 =
     \<lparr>jwt_verify = (\<lambda>t. if t = ''tokA'' then Some ''a1''
                        else if t = ''tokB'' then Some ''b2'' else None),
      jwt_sign = (\<lambda>i. ''tok-'' @ i),
      bcrypt_compare = (\<lambda>p h. h = CHR ''#'' # p),
      bcrypt_hash = (\<lambda>p. CHR ''#'' # p),
      isEmail = (\<lambda>s. CHR ''@'' \<in> set s),
      isObjectId = (\<lambda>s. s \<noteq> [] \<and> list_all (\<lambda>c. c \<in> set ''0123456789abcdef'') s),
      castString = (\<lambda>v. case v of JStr s \<Rightarrow> Some s | _ \<Rightarrow> None),
      castNumber = (\<lambda>v. case v of JNum n \<Rightarrow> Some n | _ \<Rightarrow> None),
      castBoolean = (\<lambda>v. case v of JBool b \<Rightarrow> Some b | _ \<Rightarrow> None),
      store_fails = (\<lambda>op. False)\<rparr>"

definition ann :: user where
  "ann = \<lparr>u_id = ''a1'', name = ''Ann'', email = ''ann@example.com'', password = ''#nodejs!72'',
          age = 30, tokens = [''tokA''], avatar = Some [137, 80], u_createdAt = 1, u_updatedAt = 1\<rparr>"

definition bob :: user where
  "bob = \<lparr>u_id = ''b2'', name = ''Bob'', email = ''bob@example.com'', password = ''#Red!12345'',
          age = 41, tokens = [''tokB''], avatar = None, u_createdAt = 2, u_updatedAt = 2\<rparr>"

definition task1 :: task where
  "task1 = \<lparr>t_id = ''1'', description = ''write'', completed = True, owner = ''a1'',
            t_createdAt = 3, t_updatedAt = 3\<rparr>"

definition task2 :: task where
  "task2 = \<lparr>t_id = ''2'', description = ''read'', completed = False, owner = ''b2'',
            t_createdAt = 4, t_updatedAt = 4\<rparr>"

definition task3 :: task where
  "task3 = \<lparr>t_id = ''3'', description = ''cook'', completed = False, owner = ''a1'',
            t_createdAt = 5, t_updatedAt = 5\<rparr>"

definition task4 :: task where
  "task4 = \<lparr>t_id = ''4'', description = ''swim'', completed = True, owner = ''a1'',
            t_createdAt = 6, t_updatedAt = 6\<rparr>"

definition db0 :: db where
  "db0 = \<lparr>users = [ann, bob], tasks = [task1, task2, task3, task4]\<rparr>"

definition req0 :: request where
  "req0 = \<lparr>authorization = Some ''Bearer tokA'', params_id = ''2'', query_completed = None,
           query_sortBy = None, query_limit = None, query_skip = None, req_body = []\<rparr>"

section \<open>Lemmas on objects\<close>

lemma map_of_delete_prop:
  "map_of (delete_prop k obj) k' = (if k' = k then None else map_of obj k')"
  by (induction obj) (auto simp: delete_prop_def)

lemma map_fst_delete_prop:
  "map fst (delete_prop k obj) = filter (\<lambda>k'. k' \<noteq> k) (map fst obj)"
  by (induction obj) (auto simp: delete_prop_def)

lemma map_of_toJSON:
  "map_of (toJSON u) k =
     (if k = ''password'' \<or> k = ''tokens'' \<or> k = ''avatar'' then None else map_of (toObject u) k)"
  by (simp add: toJSON_def Let_def map_of_delete_prop)

section \<open>Lemmas on the store\<close>

lemma find_Some_set: "find P xs = Some x \<Longrightarrow> x \<in> set xs \<and> P x"
  by (induction xs) (auto split: if_splits)


section \<open>Lemmas on the auth middleware\<close>

lemma auth_cases:
  "auth lib d req = Inl auth_failed \<or> (\<exists>user token. auth lib d req = Inr (user, token))"
  by (cases "auth_try lib d req") (auto simp: auth_def)

lemma auth_Inr_iff:
  "auth lib d req = Inr (user, token) \<longleftrightarrow>
     (\<exists>h i. authorization req = Some h \<and> token = replace_first ''Bearer '' [] h
            \<and> jwt_verify lib token = Some i
            \<and> User_findOne_id_token lib d i token = Inr (Some user))"
  by (auto simp: auth_def auth_try_def Let_def split: option.splits sum.splits)

lemma User_findOne_id_token_Some:
  "User_findOne_id_token lib d i token = Inr (Some user) \<Longrightarrow>
     \<not> store_fails lib OpUserFindOne \<and> isObjectId lib i
     \<and> user \<in> set (users d) \<and> u_id user = i \<and> token \<in> set (tokens user)"
  by (auto simp: User_findOne_id_token_def split: if_splits dest: find_Some_set)

lemma auth_fails_unless:
  "\<not> (\<exists>user token. auth lib d req = Inr (user, token)) \<Longrightarrow> auth lib d req = Inl auth_failed"
  using auth_cases [of lib d req] by blast


section \<open>Lemmas on login\<close>

lemma findByCredentials_unknown_email:
  "User_findOne_email lib d e = Inr None \<Longrightarrow>
     findByCredentials lib d e pass = Inl (new_Error ''Unable to login (email not found)'')"
  by (simp add: findByCredentials_def)

lemma findByCredentials_wrong_password:
  "User_findOne_email lib d e = Inr (Some user) \<Longrightarrow> \<not> bcrypt_compare lib pass (password user) \<Longrightarrow>
     findByCredentials lib d e pass = Inl (new_Error ''Unable to login (password is incorrect)'')"
  by (simp add: findByCredentials_def Let_def)

text \<open>The two errors differ where they are thrown; their serialisations do not.\<close>

lemma login_errors_differ_in_message:
  "new_Error ''Unable to login (email not found)''
     \<noteq> new_Error ''Unable to login (password is incorrect)''"
  by (simp add: new_Error_def)

lemma error_body_new_Error: "error_body (new_Error msg) = JsonBody (JObj [])"
  by (simp add: error_body_def new_Error_def)

lemma login_rejected:
  "findByCredentials lib d e pass = Inl (new_Error msg) \<Longrightarrow>
     post_users_login lib now d e pass = (Some \<lparr>status = 400, body = JsonBody (JObj [])\<rparr>, d)"
  by (simp add: post_users_login_def error_body_new_Error)

section \<open>Lemmas on updates\<close>

lemma isValidOperation_Nil: "isValidOperation allowed []"
  by (simp add: isValidOperation_def)

lemma isValidOperation_iff:
  "isValidOperation allowed updates \<longleftrightarrow> (\<forall>k \<in> set updates. k \<in> set allowed)"
  by (simp add: isValidOperation_def list_all_iff)

lemma user_save_unmodified:
  "validateUser lib u \<Longrightarrow> \<not> store_fails lib OpUserSave \<Longrightarrow>
     user_save lib now d u (u, False) = Inr (u, d)"
  by (simp add: user_save_def Let_def)

lemma task_save_unmodified:
  "validateTask t \<Longrightarrow> \<not> store_fails lib OpTaskSave \<Longrightarrow>
     task_save lib now d t (t, False) = Inr (t, d)"
  by (simp add: task_save_def Let_def)

lemma patch_users_me_refused:
  "\<not> isValidOperation user_allowedUpdates (map fst (req_body req)) \<Longrightarrow>
     patch_users_me lib now d req user = (Some user_update_refused, d)"
  by (simp add: patch_users_me_def Let_def)

lemma patch_tasks_id_refused:
  "\<not> isValidOperation task_allowedUpdates (map fst (req_body req)) \<Longrightarrow>
     patch_tasks_id lib now d req user = (Some task_update_refused, d)"
  by (simp add: patch_tasks_id_def Let_def)

lemma lib0_validates_ann: "validateUser lib0 ann"
  by (simp add: validateUser_def lib0_def ann_def toLowerCase_def)

lemma lib0_isObjectId_digit [simp]:
  "isObjectId lib0 ''1''" "isObjectId lib0 ''2''" "isObjectId lib0 ''3''" "isObjectId lib0 ''4''"
  by (simp_all add: lib0_def)

lemma lib0_store_fails [simp]: "\<not> store_fails lib0 op"
  by (simp add: lib0_def)

section \<open>Lemmas on account deletion\<close>

lemma sort_tasks_Nil: "sort_tasks spec [] = []"
  by (simp add: sort_tasks_def split: option.splits prod.splits)

lemma apply_limit_Nil: "apply_limit n [] = []"
  by (simp add: apply_limit_def populate_limit_def cursor_limit_def)

lemma populate_tasks_no_owned:
  assumes "\<forall>t \<in> set (tasks d). owner t \<noteq> u_id user"
    and "\<not> store_fails lib OpTaskFind"
    and "case skip of None \<Rightarrow> True | Some n \<Rightarrow> 0 \<le> n"
  shows "populate_tasks lib d user match limit skip sortSpec = Inr []"
proof -
  have "filter (\<lambda>t. owner t = u_id user
                  \<and> (case match of None \<Rightarrow> True | Some c \<Rightarrow> completed t = c)) (tasks d) = []"
    using assms(1) by (auto simp: filter_empty_conv)
  then show ?thesis
    using assms(2,3)
    by (auto simp: populate_tasks_def Let_def sort_tasks_Nil apply_limit_Nil split: option.splits)
qed

lemma user_remove_Inr:
  "user_remove lib d user = Inr d' \<longleftrightarrow>
     \<not> store_fails lib OpTaskDeleteMany \<and> \<not> store_fails lib OpUserRemove
     \<and> d' = \<lparr>users = filter (\<lambda>u. u_id u \<noteq> u_id user) (users d),
             tasks = filter (\<lambda>t. owner t \<noteq> u_id user) (tasks d)\<rparr>"
  by (cases d) (auto simp: user_remove_def Let_def)

lemma delete_users_me_200:
  "delete_users_me lib d user = (Some r, d') \<Longrightarrow> status r = 200 \<Longrightarrow> user_remove lib d user = Inr d'"
  by (auto simp: delete_users_me_def split: sum.splits prod.splits)

section \<open>Lemmas on the avatar\<close>

lemma validateUser_avatar [simp]: "validateUser lib (u\<lparr>avatar := a\<rparr>) = validateUser lib u"
  by (simp add: validateUser_def)

lemma validateUser_updatedAt [simp]: "validateUser lib (u\<lparr>u_updatedAt := n\<rparr>) = validateUser lib u"
  by (simp add: validateUser_def)

lemma clear_avatar_eq: "(u\<lparr>avatar := None\<rparr> = u) = (avatar u = None)"
  by (cases u) auto

lemma user_save_clear_avatar_absent:
  "validateUser lib u \<Longrightarrow> \<not> store_fails lib OpUserSave \<Longrightarrow> avatar u = None \<Longrightarrow>
     user_save lib now d u (u\<lparr>avatar := None\<rparr>, False) = Inr (u, d)"
  by (simp add: user_save_def Let_def clear_avatar_eq)

lemma user_save_clear_avatar_present:
  "validateUser lib u \<Longrightarrow> \<not> store_fails lib OpUserSave \<Longrightarrow> avatar u \<noteq> None \<Longrightarrow>
     user_save lib now d u (u\<lparr>avatar := None\<rparr>, False)
       = Inr (u\<lparr>avatar := None, u_updatedAt := now\<rparr>,
              d\<lparr>users := map (\<lambda>x. if u_id x = u_id u then u\<lparr>avatar := None, u_updatedAt := now\<rparr> else x)
                            (users d)\<rparr>)"
  by (auto simp: user_save_def Let_def clear_avatar_eq)

lemma find_after_replace:
  assumes "find (\<lambda>x. u_id x = i \<and> P x) xs = Some u" and "u_id v = i" and "P v"
  shows "find (\<lambda>x. u_id x = i \<and> P x) (map (\<lambda>x. if u_id x = i then v else x) xs) = Some v"
  using assms by (induction xs) (auto split: if_splits)

lemma auth_after_replace:
  assumes a: "auth lib d req = Inr (user, token)"
    and v: "u_id v = u_id user" "tokens v = tokens user"
  shows "auth lib (d\<lparr>users := map (\<lambda>x. if u_id x = u_id user then v else x) (users d)\<rparr>) req
           = Inr (v, token)"
proof -
  obtain h i where h: "authorization req = Some h" "token = replace_first ''Bearer '' [] h"
      "jwt_verify lib token = Some i"
      and f: "User_findOne_id_token lib d i token = Inr (Some user)"
    using a by (auto simp: auth_Inr_iff)
  have ok: "\<not> store_fails lib OpUserFindOne" "isObjectId lib i" "u_id user = i"
      "token \<in> set (tokens user)"
    using User_findOne_id_token_Some [OF f] by auto
  have "find (\<lambda>x. u_id x = i \<and> token \<in> set (tokens x)) (users d) = Some user"
    using f ok by (simp add: User_findOne_id_token_def)
  then have "find (\<lambda>x. u_id x = i \<and> token \<in> set (tokens x))
               (map (\<lambda>x. if u_id x = i then v else x) (users d)) = Some v"
    using v ok by (intro find_after_replace) auto
  then have "User_findOne_id_token lib
               (d\<lparr>users := map (\<lambda>x. if u_id x = u_id user then v else x) (users d)\<rparr>) i token
             = Inr (Some v)"
    using ok by (simp add: User_findOne_id_token_def)
  then show ?thesis
    using h by (auto simp: auth_Inr_iff)
qed

section \<open>Lemmas on parseInt\<close>







section \<open>Lemmas on the task query\<close>

lemma set_sort_tasks: "set (sort_tasks spec ts) = set ts"
  by (simp add: sort_tasks_def split: option.splits prod.splits)

lemma apply_limit_eq:
  "apply_limit n xs = (if n = 0 then xs else if n < 0 then take 1 xs else take (nat n) xs)"
  by (cases xs) (auto simp: apply_limit_def populate_limit_def cursor_limit_def)

lemma set_apply_limit: "set (apply_limit n xs) \<subseteq> set xs"
  by (auto simp: apply_limit_eq dest: in_set_takeD)


lemma set_populate_tasks:
  assumes "populate_tasks lib d user match limit skip sortSpec = Inr ts"
  shows "set ts \<subseteq> {t \<in> set (tasks d). owner t = u_id user
                      \<and> (case match of None \<Rightarrow> True | Some c \<Rightarrow> completed t = c)}"
proof -
  let ?found = "filter (\<lambda>t. owner t = u_id user
                  \<and> (case match of None \<Rightarrow> True | Some c \<Rightarrow> completed t = c)) (tasks d)"
  let ?lim = "case limit of None \<Rightarrow> 0 | Some n \<Rightarrow> n"
  let ?skp = "case skip of None \<Rightarrow> 0 | Some n \<Rightarrow> n"
  have ts: "ts = apply_limit ?lim (drop (nat ?skp) (sort_tasks sortSpec ?found))"
    using assms by (simp add: populate_tasks_def Let_def split: if_splits)
  have "set ts \<subseteq> set (drop (nat ?skp) (sort_tasks sortSpec ?found))"
    unfolding ts by (rule set_apply_limit)
  also have "\<dots> \<subseteq> set (sort_tasks sortSpec ?found)"
    by (rule set_drop_subset)
  also have "\<dots> = set ?found"
    by (rule set_sort_tasks)
  finally show ?thesis
    by auto
qed


lemma populate_tasks_no_owned_Inr:
  assumes "\<forall>t \<in> set (tasks d). owner t \<noteq> u_id user"
    and "populate_tasks lib d user match limit skip sortSpec = Inr ts"
  shows "ts = []"
proof (cases ts)
  case Nil
  then show ?thesis .
next
  case (Cons t ts')
  then have "t \<in> set ts"
    by simp
  then have "t \<in> set (tasks d) \<and> owner t = u_id user"
    using set_populate_tasks [OF assms(2)] by auto
  then show ?thesis
    using assms(1) by auto
qed







section \<open>Lemmas on limit and skip\<close>




section \<open>Lemmas on single tasks\<close>
















section \<open>Claims\<close>

text \<open>
  C8. The serialised form of a user record has no password, no tokens and no avatar
  property; every other property of the record's object form is in it with the same
  value. Serialisation works on the copy \<open>toObject\<close> returns: the document still holds
  its password and tokens afterwards, as its object form shows.
\<close>

theorem toJSON_omits_private_fields:
  "map_of (toJSON u) ''password'' = None
   \<and> map_of (toJSON u) ''tokens'' = None
   \<and> map_of (toJSON u) ''avatar'' = None
   \<and> (\<forall>k. k \<notin> {''password'', ''tokens'', ''avatar''}
          \<longrightarrow> map_of (toJSON u) k = map_of (toObject u) k)
   \<and> map fst (toJSON u)
       = filter (\<lambda>k. k \<notin> {''password'', ''tokens'', ''avatar''}) (map fst (toObject u))
   \<and> map_of (toObject u) ''password'' = Some (JStr (password u))
   \<and> map_of (toObject u) ''tokens''
       = Some (JArr (map (\<lambda>t. JObj [(''token'', JStr t)]) (tokens u)))"
proof -
  have keys: "map fst (toJSON u)
       = filter (\<lambda>k. k \<notin> {''password'', ''tokens'', ''avatar''}) (map fst (toObject u))"
    by (auto simp: toJSON_def Let_def map_fst_delete_prop intro: filter_cong)
  have pw: "map_of (toObject u) ''password'' = Some (JStr (password u))"
    by (simp add: toObject_def)
  have tk: "map_of (toObject u) ''tokens''
       = Some (JArr (map (\<lambda>t. JObj [(''token'', JStr t)]) (tokens u)))"
    by (simp add: toObject_def)
  show ?thesis
    using keys pw tk by (simp add: map_of_toJSON)
qed

theorem toJSON_omits_private_fields_witness:
  "''email'' \<notin> {''password'', ''tokens'', ''avatar''}
   \<and> map_of (toJSON \<lparr>u_id = ''u1'', name = ''Ann'', email = ''ann@example.com'',
                      password = ''$2a$08$hash'', age = 30, tokens = [''tok1''],
                      avatar = Some [1, 2], u_createdAt = 5, u_updatedAt = 7\<rparr>) ''email''
       = Some (JStr ''ann@example.com'')
   \<and> map_of (toJSON \<lparr>u_id = ''u1'', name = ''Ann'', email = ''ann@example.com'',
                      password = ''$2a$08$hash'', age = 30, tokens = [''tok1''],
                      avatar = Some [1, 2], u_createdAt = 5, u_updatedAt = 7\<rparr>) ''password''
       = None"
  using toJSON_omits_private_fields
    [of "\<lparr>u_id = ''u1'', name = ''Ann'', email = ''ann@example.com'',
          password = ''$2a$08$hash'', age = 30, tokens = [''tok1''],
          avatar = Some [1, 2], u_createdAt = 5, u_updatedAt = 7\<rparr>"]
  by (simp add: toObject_def)

text \<open>
  C2. The auth check has one failure outcome: whatever goes wrong (no
  \<open>Authorization\<close> header, a token \<open>jwt.verify\<close> rejects because it is malformed or
  wrongly signed, no user with the embedded id, a user who does not hold the token, a
  failing lookup), the response is the same \<open>auth_failed\<close>, with status 401, and the
  store is untouched. The handler of a protected route runs only when the header is
  there, the token verifies, and a stored user with the embedded id holds the token; it
  then gets that user and that token.
\<close>

theorem auth_single_failure_outcome:
  "(auth lib d req = Inl auth_failed \<or> (\<exists>user token. auth lib d req = Inr (user, token)))
   \<and> status auth_failed = 401
   \<and> (authorization req = None \<longrightarrow> auth lib d req = Inl auth_failed)
   \<and> (\<forall>h. authorization req = Some h
          \<longrightarrow> jwt_verify lib (replace_first ''Bearer '' [] h) = None
          \<longrightarrow> auth lib d req = Inl auth_failed)
   \<and> (\<forall>h i. authorization req = Some h
          \<longrightarrow> jwt_verify lib (replace_first ''Bearer '' [] h) = Some i
          \<longrightarrow> (\<forall>u \<in> set (users d). u_id u \<noteq> i)
          \<longrightarrow> auth lib d req = Inl auth_failed)
   \<and> (\<forall>h i. authorization req = Some h
          \<longrightarrow> jwt_verify lib (replace_first ''Bearer '' [] h) = Some i
          \<longrightarrow> (\<forall>u \<in> set (users d). u_id u = i
                 \<longrightarrow> replace_first ''Bearer '' [] h \<notin> set (tokens u))
          \<longrightarrow> auth lib d req = Inl auth_failed)
   \<and> (\<forall>user token. auth lib d req = Inr (user, token)
          \<longrightarrow> (\<exists>h. authorization req = Some h \<and> token = replace_first ''Bearer '' [] h)
              \<and> jwt_verify lib token = Some (u_id user)
              \<and> user \<in> set (users d) \<and> token \<in> set (tokens user))
   \<and> (\<forall>handler. (\<exists>user token. auth lib d req = Inr (user, token)
                        \<and> protected lib d req handler = handler user token)
          \<or> (auth lib d req = Inl auth_failed
              \<and> protected lib d req handler = (Some auth_failed, d)))"
proof -
  have one: "auth lib d req = Inl auth_failed \<or> (\<exists>user token. auth lib d req = Inr (user, token))"
    by (rule auth_cases)
  have st: "status auth_failed = 401"
    by (simp add: auth_failed_def)
  have missing: "authorization req = None \<longrightarrow> auth lib d req = Inl auth_failed"
    by (simp add: auth_def auth_try_def)
  have invalid: "\<forall>h. authorization req = Some h
          \<longrightarrow> jwt_verify lib (replace_first ''Bearer '' [] h) = None
          \<longrightarrow> auth lib d req = Inl auth_failed"
    by (simp add: auth_def auth_try_def Let_def)
  have nouser: "\<forall>h i. authorization req = Some h
          \<longrightarrow> jwt_verify lib (replace_first ''Bearer '' [] h) = Some i
          \<longrightarrow> (\<forall>u \<in> set (users d). u_id u \<noteq> i)
          \<longrightarrow> auth lib d req = Inl auth_failed"
  proof (intro allI impI)
    fix h i
    assume h: "authorization req = Some h"
      and v: "jwt_verify lib (replace_first ''Bearer '' [] h) = Some i"
      and n: "\<forall>u \<in> set (users d). u_id u \<noteq> i"
    have "\<not> (\<exists>user token. auth lib d req = Inr (user, token))"
      using h v n by (auto simp: auth_Inr_iff dest: User_findOne_id_token_Some)
    then show "auth lib d req = Inl auth_failed"
      by (rule auth_fails_unless)
  qed
  have notoken: "\<forall>h i. authorization req = Some h
          \<longrightarrow> jwt_verify lib (replace_first ''Bearer '' [] h) = Some i
          \<longrightarrow> (\<forall>u \<in> set (users d). u_id u = i
                 \<longrightarrow> replace_first ''Bearer '' [] h \<notin> set (tokens u))
          \<longrightarrow> auth lib d req = Inl auth_failed"
  proof (intro allI impI)
    fix h i
    assume h: "authorization req = Some h"
      and v: "jwt_verify lib (replace_first ''Bearer '' [] h) = Some i"
      and n: "\<forall>u \<in> set (users d). u_id u = i
                 \<longrightarrow> replace_first ''Bearer '' [] h \<notin> set (tokens u)"
    have "\<not> (\<exists>user token. auth lib d req = Inr (user, token))"
      using h v n by (auto simp: auth_Inr_iff dest: User_findOne_id_token_Some)
    then show "auth lib d req = Inl auth_failed"
      by (rule auth_fails_unless)
  qed
  have pass: "\<forall>user token. auth lib d req = Inr (user, token)
          \<longrightarrow> (\<exists>h. authorization req = Some h \<and> token = replace_first ''Bearer '' [] h)
              \<and> jwt_verify lib token = Some (u_id user)
              \<and> user \<in> set (users d) \<and> token \<in> set (tokens user)"
    by (auto simp: auth_Inr_iff dest: User_findOne_id_token_Some)
  have gate: "\<forall>handler. (\<exists>user token. auth lib d req = Inr (user, token)
                        \<and> protected lib d req handler = handler user token)
          \<or> (auth lib d req = Inl auth_failed
              \<and> protected lib d req handler = (Some auth_failed, d))"
    using one by (auto simp: protected_def)
  show ?thesis
    using one st missing invalid nouser notoken pass gate by blast
qed

theorem auth_single_failure_outcome_witness:
  "authorization (req0\<lparr>authorization := None\<rparr>) = None
   \<and> auth lib0 db0 (req0\<lparr>authorization := None\<rparr>) = Inl auth_failed
   \<and> authorization (req0\<lparr>authorization := Some ''Bearer tokB''\<rparr>) = Some ''Bearer tokB''
   \<and> jwt_verify lib0 (replace_first ''Bearer '' [] ''Bearer tokB'') = Some ''b2''
   \<and> map u_id (users (db0\<lparr>users := [ann]\<rparr>)) = [''a1'']
   \<and> auth lib0 (db0\<lparr>users := [ann]\<rparr>) (req0\<lparr>authorization := Some ''Bearer tokB''\<rparr>)
       = Inl auth_failed
   \<and> auth lib0 db0 req0 = Inr (ann, ''tokA'')
   \<and> jwt_verify lib0 ''tokA'' = Some (u_id ann)
   \<and> ann \<in> set (users db0) \<and> ''tokA'' \<in> set (tokens ann)"
proof -
  have a: "auth lib0 db0 req0 = Inr (ann, ''tokA'')"
    by (simp add: auth_def auth_try_def User_findOne_id_token_def Let_def lib0_def db0_def
        req0_def ann_def bob_def)
  have b: "\<forall>u \<in> set (users (db0\<lparr>users := [ann]\<rparr>)). u_id u \<noteq> ''b2''"
    by (simp add: ann_def)
  have c: "jwt_verify lib0 (replace_first ''Bearer '' [] ''Bearer tokB'') = Some ''b2''"
    by (simp add: lib0_def)
  have n: "authorization (req0\<lparr>authorization := None\<rparr>) = None"
    by simp
  have h: "authorization (req0\<lparr>authorization := Some ''Bearer tokB''\<rparr>) = Some ''Bearer tokB''"
    by simp
  have w1: "auth lib0 db0 (req0\<lparr>authorization := None\<rparr>) = Inl auth_failed"
    using n auth_single_failure_outcome [of lib0 db0 "req0\<lparr>authorization := None\<rparr>"]
    by blast
  have w2: "auth lib0 (db0\<lparr>users := [ann]\<rparr>) (req0\<lparr>authorization := Some ''Bearer tokB''\<rparr>)
       = Inl auth_failed"
    using h b c
      auth_single_failure_outcome [of lib0 "db0\<lparr>users := [ann]\<rparr>"
        "req0\<lparr>authorization := Some ''Bearer tokB''\<rparr>"]
    by blast
  have w3: "jwt_verify lib0 ''tokA'' = Some (u_id ann)
      \<and> ann \<in> set (users db0) \<and> ''tokA'' \<in> set (tokens ann)"
    using a auth_single_failure_outcome [of lib0 db0 req0] by blast
  have m: "map u_id (users (db0\<lparr>users := [ann]\<rparr>)) = [''a1'']"
    by (simp add: ann_def)
  show ?thesis
    using n h a c m w1 w2 w3 by blast
qed

text \<open>
  C1. A login with an email no user has, and a login with a registered email and a
  password that does not match the stored hash, both fail with status 400, and the two
  responses are equal: the body is the JSON of the caught \<open>Error\<close>, which has no
  enumerable property, so the message that tells the two apart where it is thrown
  (\<open>login_errors_differ_in_message\<close>) is not in the response. The store is unchanged.
\<close>

theorem login_failures_same_response:
  "(User_findOne_email lib d e = Inr None
      \<longrightarrow> post_users_login lib now d e pass
          = (Some \<lparr>status = 400, body = JsonBody (JObj [])\<rparr>, d))
   \<and> (\<forall>user. User_findOne_email lib d e = Inr (Some user)
          \<longrightarrow> \<not> bcrypt_compare lib pass (password user)
          \<longrightarrow> post_users_login lib now d e pass
              = (Some \<lparr>status = 400, body = JsonBody (JObj [])\<rparr>, d))
   \<and> (\<forall>e' pass' now' user. User_findOne_email lib d e = Inr None
          \<longrightarrow> User_findOne_email lib d e' = Inr (Some user)
          \<longrightarrow> \<not> bcrypt_compare lib pass' (password user)
          \<longrightarrow> post_users_login lib now d e pass = post_users_login lib now' d e' pass')"
proof -
  have unknown: "post_users_login lib n d x p = (Some \<lparr>status = 400, body = JsonBody (JObj [])\<rparr>, d)"
    if "User_findOne_email lib d x = Inr None" for n x p
    using that by (rule login_rejected [OF findByCredentials_unknown_email])
  have wrong: "post_users_login lib n d x p = (Some \<lparr>status = 400, body = JsonBody (JObj [])\<rparr>, d)"
    if "User_findOne_email lib d x = Inr (Some user)" "\<not> bcrypt_compare lib p (password user)"
    for n x p user
    using that by (rule login_rejected [OF findByCredentials_wrong_password])
  show ?thesis
    using unknown wrong by simp
qed

theorem login_failures_same_response_witness:
  "User_findOne_email lib0 db0 ''eve@example.com'' = Inr None
   \<and> User_findOne_email lib0 db0 ''Ann@Example.com'' = Inr (Some ann)
   \<and> \<not> bcrypt_compare lib0 ''nodejs!73'' (password ann)
   \<and> post_users_login lib0 9 db0 ''eve@example.com'' ''nodejs!72''
       = (Some \<lparr>status = 400, body = JsonBody (JObj [])\<rparr>, db0)
   \<and> post_users_login lib0 9 db0 ''Ann@Example.com'' ''nodejs!73''
       = (Some \<lparr>status = 400, body = JsonBody (JObj [])\<rparr>, db0)
   \<and> post_users_login lib0 9 db0 ''eve@example.com'' ''nodejs!72''
       = post_users_login lib0 9 db0 ''Ann@Example.com'' ''nodejs!73''"
proof -
  have a: "User_findOne_email lib0 db0 ''eve@example.com'' = Inr None"
    by (simp add: User_findOne_email_def lib0_def db0_def ann_def bob_def toLowerCase_def
        trim_def isWhiteSpace_def)
  have b: "User_findOne_email lib0 db0 ''Ann@Example.com'' = Inr (Some ann)"
    by (simp add: User_findOne_email_def lib0_def db0_def ann_def bob_def toLowerCase_def
        trim_def isWhiteSpace_def)
  have c: "\<not> bcrypt_compare lib0 ''nodejs!73'' (password ann)"
    by (simp add: lib0_def ann_def)
  have w1: "post_users_login lib0 9 db0 ''eve@example.com'' ''nodejs!72''
       = (Some \<lparr>status = 400, body = JsonBody (JObj [])\<rparr>, db0)"
    using a login_failures_same_response [of lib0 db0 "''eve@example.com''" 9 "''nodejs!72''"]
    by blast
  have w2: "post_users_login lib0 9 db0 ''Ann@Example.com'' ''nodejs!73''
       = (Some \<lparr>status = 400, body = JsonBody (JObj [])\<rparr>, db0)"
    using b c login_failures_same_response [of lib0 db0 "''Ann@Example.com''" 9 "''nodejs!73''"]
    by blast
  show ?thesis
    using a b c w1 w2 by simp
qed

text \<open>
  C4. An update of the user (allowed: name, email, password, age) or of a task
  (allowed: description, completed) whose body has a key outside the allowlist is
  answered with status 400, whatever the other keys and whatever the task id, and the
  store after the request is the store before it: no field has been written.
\<close>

theorem update_with_disallowed_key_is_refused:
  "user_allowedUpdates = [''name'', ''email'', ''password'', ''age'']
   \<and> task_allowedUpdates = [''description'', ''completed'']
   \<and> status user_update_refused = 400
   \<and> status task_update_refused = 400
   \<and> ((\<exists>k \<in> set (map fst (req_body req)). k \<notin> set user_allowedUpdates)
        \<longrightarrow> patch_users_me lib now d req user = (Some user_update_refused, d))
   \<and> ((\<exists>k \<in> set (map fst (req_body req)). k \<notin> set task_allowedUpdates)
        \<longrightarrow> patch_tasks_id lib now d req user = (Some task_update_refused, d))"
proof -
  have u: "patch_users_me lib now d req user = (Some user_update_refused, d)"
    if "\<exists>k \<in> set (map fst (req_body req)). k \<notin> set user_allowedUpdates"
    using that by (intro patch_users_me_refused) (auto simp: isValidOperation_iff)
  have t: "patch_tasks_id lib now d req user = (Some task_update_refused, d)"
    if "\<exists>k \<in> set (map fst (req_body req)). k \<notin> set task_allowedUpdates"
    using that by (intro patch_tasks_id_refused) (auto simp: isValidOperation_iff)
  show ?thesis
    using u t
    by (simp add: user_allowedUpdates_def task_allowedUpdates_def user_update_refused_def
        task_update_refused_def)
qed

theorem update_with_disallowed_key_is_refused_witness:
  "(\<exists>k \<in> set (map fst (req_body (req0\<lparr>req_body := [(''name'', JStr ''Eve''), (''tokens'', JArr [])]\<rparr>))).
       k \<notin> set user_allowedUpdates)
   \<and> patch_users_me lib0 9 db0 (req0\<lparr>req_body := [(''name'', JStr ''Eve''), (''tokens'', JArr [])]\<rparr>) ann
       = (Some user_update_refused, db0)
   \<and> (\<exists>k \<in> set (map fst (req_body (req0\<lparr>params_id := ''1'',
          req_body := [(''completed'', JBool False), (''owner'', JStr ''b2'')]\<rparr>))).
       k \<notin> set task_allowedUpdates)
   \<and> patch_tasks_id lib0 9 db0 (req0\<lparr>params_id := ''1'',
          req_body := [(''completed'', JBool False), (''owner'', JStr ''b2'')]\<rparr>) ann
       = (Some task_update_refused, db0)"
proof -
  have a: "\<exists>k \<in> set (map fst (req_body (req0\<lparr>req_body := [(''name'', JStr ''Eve''), (''tokens'', JArr [])]\<rparr>))).
       k \<notin> set user_allowedUpdates"
    by (simp add: user_allowedUpdates_def)
  have b: "\<exists>k \<in> set (map fst (req_body (req0\<lparr>params_id := ''1'',
          req_body := [(''completed'', JBool False), (''owner'', JStr ''b2'')]\<rparr>))).
       k \<notin> set task_allowedUpdates"
    by (simp add: task_allowedUpdates_def)
  have w1: "patch_users_me lib0 9 db0 (req0\<lparr>req_body := [(''name'', JStr ''Eve''), (''tokens'', JArr [])]\<rparr>) ann
       = (Some user_update_refused, db0)"
    using a update_with_disallowed_key_is_refused
      [of "req0\<lparr>req_body := [(''name'', JStr ''Eve''), (''tokens'', JArr [])]\<rparr>" lib0 9 db0 ann]
    by blast
  have w2: "patch_tasks_id lib0 9 db0 (req0\<lparr>params_id := ''1'',
          req_body := [(''completed'', JBool False), (''owner'', JStr ''b2'')]\<rparr>) ann
       = (Some task_update_refused, db0)"
    using b update_with_disallowed_key_is_refused
      [of "req0\<lparr>params_id := ''1'',
          req_body := [(''completed'', JBool False), (''owner'', JStr ''b2'')]\<rparr>" lib0 9 db0 ann]
    by blast
  show ?thesis
    using a b w1 w2 by blast
qed

text \<open>
  C10. An update whose body is the empty object passes the allowlist check (there is
  no key to refuse), changes no path, and is answered with status 200 and the entity as
  it was; the store is unchanged. This is so for the user, and for a task the caller
  owns, provided \<open>save\<close> goes through: the stored document satisfies its schema's
  validators, which \<open>save\<close> runs again, and the store accepts the operation.
\<close>

theorem empty_update_returns_entity_unchanged:
  "isValidOperation user_allowedUpdates (map fst ([] :: jsobject))
   \<and> isValidOperation task_allowedUpdates (map fst ([] :: jsobject))
   \<and> (req_body req = [] \<longrightarrow> validateUser lib user \<longrightarrow> \<not> store_fails lib OpUserSave
        \<longrightarrow> patch_users_me lib now d req user
            = (Some \<lparr>status = 200, body = JsonBody (JObj (toJSON user))\<rparr>, d))
   \<and> (\<forall>task. req_body req = []
        \<longrightarrow> Task_findOne lib d (params_id req) (u_id user) = Inr (Some task)
        \<longrightarrow> validateTask task \<longrightarrow> \<not> store_fails lib OpTaskSave
        \<longrightarrow> patch_tasks_id lib now d req user
            = (Some \<lparr>status = 200, body = JsonBody (JObj (task_toJSON task))\<rparr>, d))"
proof -
  have u: "patch_users_me lib now d req user
            = (Some \<lparr>status = 200, body = JsonBody (JObj (toJSON user))\<rparr>, d)"
    if "req_body req = []" "validateUser lib user" "\<not> store_fails lib OpUserSave"
    using that
    by (simp add: patch_users_me_def isValidOperation_Nil user_apply_updates_def
        user_save_unmodified)
  have t: "patch_tasks_id lib now d req user
            = (Some \<lparr>status = 200, body = JsonBody (JObj (task_toJSON task))\<rparr>, d)"
    if "req_body req = []" "Task_findOne lib d (params_id req) (u_id user) = Inr (Some task)"
      "validateTask task" "\<not> store_fails lib OpTaskSave" for task
    using that
    by (simp add: patch_tasks_id_def isValidOperation_Nil task_apply_updates_def
        task_save_unmodified)
  show ?thesis
    using u t by (simp add: isValidOperation_Nil)
qed

theorem empty_update_returns_entity_unchanged_witness:
  "req_body req0 = [] \<and> validateUser lib0 ann \<and> \<not> store_fails lib0 OpUserSave
   \<and> patch_users_me lib0 9 db0 req0 ann
       = (Some \<lparr>status = 200, body = JsonBody (JObj (toJSON ann))\<rparr>, db0)
   \<and> Task_findOne lib0 db0 (params_id (req0\<lparr>params_id := ''3''\<rparr>)) (u_id ann) = Inr (Some task3)
   \<and> validateTask task3 \<and> \<not> store_fails lib0 OpTaskSave
   \<and> patch_tasks_id lib0 9 db0 (req0\<lparr>params_id := ''3''\<rparr>) ann
       = (Some \<lparr>status = 200, body = JsonBody (JObj (task_toJSON task3))\<rparr>, db0)"
proof -
  have e: "req_body req0 = []" "req_body (req0\<lparr>params_id := ''3''\<rparr>) = []"
    by (simp_all add: req0_def)
  have v: "validateUser lib0 ann"
    by (rule lib0_validates_ann)
  have s: "\<not> store_fails lib0 OpUserSave" "\<not> store_fails lib0 OpTaskSave"
    by simp_all
  have f: "Task_findOne lib0 db0 (params_id (req0\<lparr>params_id := ''3''\<rparr>)) (u_id ann) = Inr (Some task3)"
    by (simp add: Task_findOne_def db0_def ann_def task1_def task2_def task3_def task4_def)
  have vt: "validateTask task3"
    by (simp add: validateTask_def task3_def)
  have w1: "patch_users_me lib0 9 db0 req0 ann
       = (Some \<lparr>status = 200, body = JsonBody (JObj (toJSON ann))\<rparr>, db0)"
    using e v s empty_update_returns_entity_unchanged [of req0 lib0 ann 9 db0] by blast
  have w2: "patch_tasks_id lib0 9 db0 (req0\<lparr>params_id := ''3''\<rparr>) ann
       = (Some \<lparr>status = 200, body = JsonBody (JObj (task_toJSON task3))\<rparr>, db0)"
    using e f vt s
      empty_update_returns_entity_unchanged [of "req0\<lparr>params_id := ''3''\<rparr>" lib0 ann 9 db0]
    by blast
  show ?thesis
    using e v s f vt w1 w2 by blast
qed

text \<open>
  C7. When the two store operations of \<open>user.remove()\<close> go through, deleting the
  account is answered with status 200; and whenever it is answered with status 200, the
  store holds no task owned by the deleted user and no user with that id, the tasks of
  the other owners are as before, and a query for that user's tasks gives the empty
  sequence: the plain query is answered with it, and so is every query the store
  answers, whatever its filter, sort, limit and skip.
\<close>

theorem delete_account_deletes_owned_tasks:
  "(\<not> store_fails lib OpTaskDeleteMany \<longrightarrow> \<not> store_fails lib OpUserRemove
      \<longrightarrow> (\<exists>d'. delete_users_me lib d user
                  = (Some \<lparr>status = 200, body = JsonBody (JObj (toJSON user))\<rparr>, d')))
   \<and> (\<forall>r d'. delete_users_me lib d user = (Some r, d') \<longrightarrow> status r = 200
        \<longrightarrow> filter (\<lambda>t. owner t = u_id user) (tasks d') = []
            \<and> (\<forall>u \<in> set (users d'). u_id u \<noteq> u_id user)
            \<and> filter (\<lambda>t. owner t \<noteq> u_id user) (tasks d')
                = filter (\<lambda>t. owner t \<noteq> u_id user) (tasks d)
            \<and> (\<not> store_fails lib OpTaskFind
                 \<longrightarrow> populate_tasks lib d' user None None None None = Inr [])
            \<and> (\<forall>match limit skip sortSpec ts.
                  populate_tasks lib d' user match limit skip sortSpec = Inr ts \<longrightarrow> ts = []))"
proof -
  have ok: "\<exists>d'. delete_users_me lib d user
                  = (Some \<lparr>status = 200, body = JsonBody (JObj (toJSON user))\<rparr>, d')"
    if "\<not> store_fails lib OpTaskDeleteMany" "\<not> store_fails lib OpUserRemove"
    using that by (simp add: delete_users_me_def user_remove_def Let_def)
  have after: "filter (\<lambda>t. owner t = u_id user) (tasks d') = []
            \<and> (\<forall>u \<in> set (users d'). u_id u \<noteq> u_id user)
            \<and> filter (\<lambda>t. owner t \<noteq> u_id user) (tasks d')
                = filter (\<lambda>t. owner t \<noteq> u_id user) (tasks d)
            \<and> (\<not> store_fails lib OpTaskFind
                 \<longrightarrow> populate_tasks lib d' user None None None None = Inr [])
            \<and> (\<forall>match limit skip sortSpec ts.
                  populate_tasks lib d' user match limit skip sortSpec = Inr ts \<longrightarrow> ts = [])"
    if r: "delete_users_me lib d user = (Some r, d')" "status r = 200" for r d'
  proof -
    have d': "d' = \<lparr>users = filter (\<lambda>u. u_id u \<noteq> u_id user) (users d),
                     tasks = filter (\<lambda>t. owner t \<noteq> u_id user) (tasks d)\<rparr>"
      using delete_users_me_200 [OF r] by (simp add: user_remove_Inr)
    have none: "\<forall>t \<in> set (tasks d'). owner t \<noteq> u_id user"
      by (simp add: d')
    have gone: "filter (\<lambda>t. owner t = u_id user) (tasks d') = []"
      using none by (auto simp: filter_empty_conv)
    have users: "\<forall>u \<in> set (users d'). u_id u \<noteq> u_id user"
      by (simp add: d')
    have others: "filter (\<lambda>t. owner t \<noteq> u_id user) (tasks d')
                = filter (\<lambda>t. owner t \<noteq> u_id user) (tasks d)"
      by (simp add: d')
    have plain: "\<not> store_fails lib OpTaskFind
                 \<longrightarrow> populate_tasks lib d' user None None None None = Inr []"
      using none by (auto intro: populate_tasks_no_owned)
    have query: "\<forall>match limit skip sortSpec ts.
                  populate_tasks lib d' user match limit skip sortSpec = Inr ts \<longrightarrow> ts = []"
      using none by (auto dest: populate_tasks_no_owned_Inr)
    show ?thesis
      using gone users others plain query by blast
  qed
  show ?thesis
    using ok after by blast
qed

theorem delete_account_deletes_owned_tasks_witness:
  "\<not> store_fails lib0 OpTaskDeleteMany \<and> \<not> store_fails lib0 OpUserRemove
   \<and> \<not> store_fails lib0 OpTaskFind
   \<and> delete_users_me lib0 db0 ann
       = (Some \<lparr>status = 200, body = JsonBody (JObj (toJSON ann))\<rparr>,
          \<lparr>users = [bob], tasks = [task2]\<rparr>)
   \<and> status \<lparr>status = 200, body = JsonBody (JObj (toJSON ann))\<rparr> = 200
   \<and> filter (\<lambda>t. owner t = u_id ann) (tasks \<lparr>users = [bob], tasks = [task2]\<rparr>) = []
   \<and> populate_tasks lib0 \<lparr>users = [bob], tasks = [task2]\<rparr> ann None None None None = Inr []"
proof -
  have s: "\<not> store_fails lib0 OpTaskDeleteMany" "\<not> store_fails lib0 OpUserRemove"
      "\<not> store_fails lib0 OpTaskFind"
    by simp_all
  have r: "delete_users_me lib0 db0 ann
       = (Some \<lparr>status = 200, body = JsonBody (JObj (toJSON ann))\<rparr>,
          \<lparr>users = [bob], tasks = [task2]\<rparr>)"
    by (simp add: delete_users_me_def user_remove_def Let_def db0_def ann_def bob_def
        task1_def task2_def task3_def task4_def)
  have st: "status \<lparr>status = 200, body = JsonBody (JObj (toJSON ann))\<rparr> = 200"
    by simp
  note t = delete_account_deletes_owned_tasks [of lib0 db0 ann]
  have w1: "filter (\<lambda>t. owner t = u_id ann) (tasks \<lparr>users = [bob], tasks = [task2]\<rparr>) = []"
    using r st t by blast
  have w2: "populate_tasks lib0 \<lparr>users = [bob], tasks = [task2]\<rparr> ann None None None None = Inr []"
    using r st s t by blast
  show ?thesis
    using s r st w1 w2 by blast
qed

text \<open>
  C9. Clearing the avatar twice: for an authenticated caller whose document \<open>save\<close>
  accepts, the first \<open>DELETE /users/me/avatar\<close> is answered with status 200, the same
  request sent again (at any later time) is answered with status 200 as well and leaves
  the store exactly as the first call left it, and the user the second request
  authenticates has no avatar.
\<close>

theorem delete_avatar_twice:
  assumes "auth lib d req = Inr (user, token)"
    and "validateUser lib user"
    and "\<not> store_fails lib OpUserSave"
  shows "\<exists>d1 user1.
           route_delete_users_me_avatar lib now1 d req = (Some avatar_deleted, d1)
           \<and> route_delete_users_me_avatar lib now2 d1 req = (Some avatar_deleted, d1)
           \<and> status avatar_deleted = 200
           \<and> auth lib d1 req = Inr (user1, token)
           \<and> avatar user1 = None"
proof (cases "avatar user = None")
  case True
  have first: "route_delete_users_me_avatar lib n d req = (Some avatar_deleted, d)" for n
    using assms True
    by (simp add: route_delete_users_me_avatar_def protected_def delete_users_me_avatar_def
        user_save_clear_avatar_absent)
  show ?thesis
    using first assms(1) True by (auto simp: avatar_deleted_def)
next
  case False
  define user1 where "user1 = user\<lparr>avatar := None, u_updatedAt := now1\<rparr>"
  define d1 where
    "d1 = d\<lparr>users := map (\<lambda>x. if u_id x = u_id user then user1 else x) (users d)\<rparr>"
  have first: "route_delete_users_me_avatar lib now1 d req = (Some avatar_deleted, d1)"
    using assms False
    by (simp add: route_delete_users_me_avatar_def protected_def delete_users_me_avatar_def
        user_save_clear_avatar_present user1_def d1_def)
  have again: "auth lib d1 req = Inr (user1, token)"
    unfolding d1_def using assms(1) by (rule auth_after_replace) (simp_all add: user1_def)
  have valid: "validateUser lib user1"
    using assms(2) by (simp add: user1_def)
  have none: "avatar user1 = None"
    by (simp add: user1_def)
  have second: "route_delete_users_me_avatar lib now2 d1 req = (Some avatar_deleted, d1)"
    using again valid none assms(3)
    by (simp add: route_delete_users_me_avatar_def protected_def delete_users_me_avatar_def
        user_save_clear_avatar_absent)
  show ?thesis
    using first second again none by (auto simp: avatar_deleted_def)
qed

theorem delete_avatar_twice_witness:
  "auth lib0 db0 req0 = Inr (ann, ''tokA'') \<and> validateUser lib0 ann
   \<and> \<not> store_fails lib0 OpUserSave
   \<and> avatar ann \<noteq> None
   \<and> (\<exists>d1 user1.
           route_delete_users_me_avatar lib0 10 db0 req0 = (Some avatar_deleted, d1)
           \<and> route_delete_users_me_avatar lib0 11 d1 req0 = (Some avatar_deleted, d1)
           \<and> status avatar_deleted = 200
           \<and> auth lib0 d1 req0 = Inr (user1, ''tokA'')
           \<and> avatar user1 = None)"
proof -
  have a: "auth lib0 db0 req0 = Inr (ann, ''tokA'')"
    by (simp add: auth_def auth_try_def User_findOne_id_token_def Let_def lib0_def db0_def
        req0_def ann_def bob_def)
  have v: "validateUser lib0 ann"
    by (rule lib0_validates_ann)
  have s: "\<not> store_fails lib0 OpUserSave"
    by simp
  have p: "avatar ann \<noteq> None"
    by (simp add: ann_def)
  show ?thesis
    using a v s p delete_avatar_twice [OF a v s, of 10 11] by blast
qed









end
